theory Spec2Isabelle
  imports Main "HOL-Library.Word"
begin

section \<open>Values exchanged with the host\<close>

text \<open>
  A \<open>Uint8Array\<close> is a list of 8-bit words. Of a \<open>vscode.Uri\<close> the code only reads the
  scheme; the remaining components are kept together in \<open>path\<close>.
\<close>

type_synonym bytes = "8 word list"

record Uri =
  scheme :: string
  path :: string

text \<open>\<open>interface BinaryEdit { readonly snapshot: Uint8Array }\<close>\<close>

datatype BinaryEdit = BinaryEdit (snapshot: bytes)

text \<open>
  The two ways an operation can throw: a failure of \<open>vscode.workspace.fs\<close> on a
  resource, and the \<open>Error('Could not find webview to save for')\<close> of the provider.
\<close>

datatype error = FileSystemError Uri | NoWebviewError

text \<open>
  The state of an awaited promise when the event loop has nothing left to run:
  fulfilled, rejected, or never settled.
\<close>

datatype 'a outcome = Resolved 'a | Rejected error | Pending

section \<open>The workspace file system\<close>

text \<open>
  \<open>vscode.workspace.fs\<close> is the host's: a table of the files that exist, and the
  locations that refuse a write. Reading a missing file and writing a refused
  location throw.
\<close>

record FileSystem =
  files :: "Uri \<rightharpoonup> bytes"
  refuses :: "Uri \<Rightarrow> bool"

definition fs_readFile :: "FileSystem \<Rightarrow> Uri \<Rightarrow> error + bytes" where
  "fs_readFile f u = (case files f u of None \<Rightarrow> Inl (FileSystemError u) | Some b \<Rightarrow> Inr b)"

definition fs_writeFile :: "FileSystem \<Rightarrow> Uri \<Rightarrow> bytes \<Rightarrow> error + FileSystem" where
  "fs_writeFile f u b =
     (if refuses f u then Inl (FileSystemError u) else Inr (f\<lparr>files := (files f)(u \<mapsto> b)\<rparr>))"

definition fs_delete :: "FileSystem \<Rightarrow> Uri \<Rightarrow> error + FileSystem" where
  "fs_delete f u =
     (case files f u of
        None \<Rightarrow> Inl (FileSystemError u)
      | Some _ \<Rightarrow> if refuses f u then Inl (FileSystemError u)
                  else Inr (f\<lparr>files := (files f)(u := None)\<rparr>))"

section \<open>Arrays as shared objects\<close>

text \<open>
  \<open>_edits\<close> and \<open>_savedEdits\<close> hold references to JavaScript arrays, and \<open>push\<close> and
  \<open>pop\<close> update an array in place, so two fields that hold the same reference see
  each other's updates. The store maps each address to the array's elements;
  \<open>next_addr\<close> is the first address not yet handed out.
\<close>

record store =
  cells :: "nat \<Rightarrow> BinaryEdit list"
  next_addr :: nat

definition array_new :: "store \<Rightarrow> nat \<times> store" where
  "array_new h = (next_addr h, h\<lparr>cells := (cells h)(next_addr h := []), next_addr := Suc (next_addr h)\<rparr>)"

definition array_from :: "store \<Rightarrow> nat \<Rightarrow> nat \<times> store" where
  "array_from h a =
     (next_addr h, h\<lparr>cells := (cells h)(next_addr h := cells h a), next_addr := Suc (next_addr h)\<rparr>)"

definition array_push :: "store \<Rightarrow> nat \<Rightarrow> BinaryEdit \<Rightarrow> store" where
  "array_push h a e = h\<lparr>cells := (cells h)(a := cells h a @ [e])\<rparr>"

text \<open>\<open>pop\<close> on an empty array removes nothing.\<close>

definition array_pop :: "store \<Rightarrow> nat \<Rightarrow> store" where
  "array_pop h a = h\<lparr>cells := (cells h)(a := butlast (cells h a))\<rparr>"

section \<open>BinaryDocument\<close>

record BinaryDocument =
  uri :: Uri
  documentData :: bytes
  edits :: nat
  savedEdits :: nat

text \<open>
  What the document's three event emitters have fired, in order. \<open>DidChange\<close> carries
  the label and the edit its \<open>undo\<close> and \<open>redo\<close> closures captured;
  \<open>DidChangeContent\<close> carries the optional content and the edit list as it is when
  the event fires.
\<close>

datatype event =
    DidDispose
  | DidChangeContent "bytes option" "BinaryEdit list"
  | DidChange string BinaryEdit

record world =
  doc :: BinaryDocument
  heap :: store
  fs :: FileSystem
  fired :: "event list"

definition edits_of :: "world \<Rightarrow> BinaryEdit list" where
  "edits_of w = cells (heap w) (edits (doc w))"

definition savedEdits_of :: "world \<Rightarrow> BinaryEdit list" where
  "savedEdits_of w = cells (heap w) (savedEdits (doc w))"

definition readFile :: "FileSystem \<Rightarrow> Uri \<Rightarrow> error + bytes" where
  "readFile f u = (if scheme u = ''untitled'' then Inr [] else fs_readFile f u)"

text \<open>The constructor: the two field initialisers \<open>[]\<close> are two distinct new arrays.\<close>

definition new_BinaryDocument :: "Uri \<Rightarrow> bytes \<Rightarrow> FileSystem \<Rightarrow> store \<Rightarrow> world" where
  "new_BinaryDocument u initialContent f h =
     (let (e, h1) = array_new h;
          (s, h2) = array_new h1
      in \<lparr>doc = \<lparr>uri = u, documentData = initialContent, edits = e, savedEdits = s\<rparr>,
          heap = h2, fs = f, fired = []\<rparr>)"

text \<open>\<open>Uri.parse\<close> is the host's and is a parameter.\<close>

definition create :: "(string \<Rightarrow> Uri) \<Rightarrow> FileSystem \<Rightarrow> store \<Rightarrow> Uri \<Rightarrow> string option \<Rightarrow> error + world" where
  "create parse f h u backupId =
     (let dataFile = (case backupId of Some b \<Rightarrow> parse b | None \<Rightarrow> u)
      in case readFile f dataFile of
           Inl err \<Rightarrow> Inl err
         | Inr fileData \<Rightarrow> Inr (new_BinaryDocument u fileData f h))"

definition dispose :: "world \<Rightarrow> world" where
  "dispose w = w\<lparr>fired := fired w @ [DidDispose]\<rparr>"

definition makeEdit :: "BinaryEdit \<Rightarrow> world \<Rightarrow> world" where
  "makeEdit e w =
     w\<lparr>heap := array_push (heap w) (edits (doc w)) e,
       fired := fired w @ [DidChange ''Update'' e]\<rparr>"

text \<open>The two closures of the event that \<open>makeEdit edit\<close> fires.\<close>

definition undo :: "world \<Rightarrow> world" where
  "undo w =
     (let h = array_pop (heap w) (edits (doc w))
      in w\<lparr>heap := h, fired := fired w @ [DidChangeContent None (cells h (edits (doc w)))]\<rparr>)"

definition redo :: "BinaryEdit \<Rightarrow> world \<Rightarrow> world" where
  "redo e w =
     (let h = array_push (heap w) (edits (doc w)) e
      in w\<lparr>heap := h, fired := fired w @ [DidChangeContent None (cells h (edits (doc w)))]\<rparr>)"

text \<open>
  The delegate is a parameter: it runs on the state \<open>'p\<close> of whoever supplied it.
  \<open>cancelled\<close> is the value of \<open>cancellation.isCancellationRequested\<close> when the
  delegate's promise has been fulfilled.
\<close>

definition saveAs ::
  "('p \<Rightarrow> bytes outcome \<times> 'p) \<Rightarrow> Uri \<Rightarrow> bool \<Rightarrow> world \<times> 'p \<Rightarrow> unit outcome \<times> world \<times> 'p" where
  "saveAs delegate targetResource cancelled s =
     (case s of (w, p) \<Rightarrow>
        (case delegate p of
           (Rejected err, p') \<Rightarrow> (Rejected err, w, p')
         | (Pending, p') \<Rightarrow> (Pending, w, p')
         | (Resolved fileData, p') \<Rightarrow>
             if cancelled then (Resolved (), w, p')
             else (case fs_writeFile (fs w) targetResource fileData of
                     Inl err \<Rightarrow> (Rejected err, w, p')
                   | Inr f' \<Rightarrow> (Resolved (), w\<lparr>fs := f'\<rparr>, p'))))"

definition save ::
  "('p \<Rightarrow> bytes outcome \<times> 'p) \<Rightarrow> bool \<Rightarrow> world \<times> 'p \<Rightarrow> unit outcome \<times> world \<times> 'p" where
  "save delegate cancelled s =
     (case saveAs delegate (uri (doc (fst s))) cancelled s of
        (Resolved _, w', p') \<Rightarrow>
          (let (a, h') = array_from (heap w') (edits (doc w'))
           in (Resolved (), w'\<lparr>doc := (doc w')\<lparr>savedEdits := a\<rparr>, heap := h'\<rparr>, p'))
      | (Rejected err, w', p') \<Rightarrow> (Rejected err, w', p')
      | (Pending, w', p') \<Rightarrow> (Pending, w', p'))"

definition revert :: "world \<Rightarrow> error + world" where
  "revert w =
     (case readFile (fs w) (uri (doc w)) of
        Inl err \<Rightarrow> Inl err
      | Inr diskContent \<Rightarrow>
          (let d = (doc w)\<lparr>documentData := diskContent, edits := savedEdits (doc w)\<rparr>
           in Inr (w\<lparr>doc := d,
                     fired := fired w @ [DidChangeContent (Some diskContent) (cells (heap w) (edits d))]\<rparr>)))"

text \<open>
  The \<open>vscode.CustomDocumentBackup\<close> that \<open>backup\<close> returns: its id, and the location
  its \<open>delete\<close> closure removes. \<open>Uri.toString\<close> is the host's and is a parameter.
\<close>

record CustomDocumentBackup =
  backup_id :: string
  backup_target :: Uri

definition backup_delete :: "CustomDocumentBackup \<Rightarrow> FileSystem \<Rightarrow> FileSystem" where
  "backup_delete b f = (case fs_delete f (backup_target b) of Inl _ \<Rightarrow> f | Inr f' \<Rightarrow> f')"

definition backup ::
  "(Uri \<Rightarrow> string) \<Rightarrow> ('p \<Rightarrow> bytes outcome \<times> 'p) \<Rightarrow> Uri \<Rightarrow> bool \<Rightarrow> world \<times> 'p
     \<Rightarrow> CustomDocumentBackup outcome \<times> world \<times> 'p" where
  "backup toString delegate destination cancelled s =
     (case saveAs delegate destination cancelled s of
        (Resolved _, w', p') \<Rightarrow>
          (Resolved \<lparr>backup_id = toString destination, backup_target = destination\<rparr>, w', p')
      | (Rejected err, w', p') \<Rightarrow> (Rejected err, w', p')
      | (Pending, w', p') \<Rightarrow> (Pending, w', p'))"

section \<open>BinaryEditorProvider\<close>

text \<open>A webview panel is known by its identity.\<close>

type_synonym panel = nat

text \<open>The \<open>body\<close> of a message, in either direction.\<close>

datatype body =
    NoBody
  | NumberArray "int list"
  | InitUntitled
  | InitValue bytes
  | UpdateBody "bytes option" "BinaryEdit list"

text \<open>What \<open>panel.webview.postMessage\<close> is given: \<open>{ type, requestId, body }\<close>.\<close>

record posted_message =
  msg_type :: string
  msg_requestId :: "nat option"
  msg_body :: body

text \<open>What a webview sends, by its \<open>type\<close>.\<close>

datatype message =
    Ready
  | Update BinaryEdit
  | Response nat body
  | Other string

text \<open>
  A callback stored in \<open>_callbacks\<close> is the \<open>resolve\<close> function of one promise;
  promises are numbered in the order they are created.
\<close>

datatype callback = Resolve nat

text \<open>
  Modelled from the spec: \<open>WebviewCollection\<close> is this repository's and its file is
  not among the sources. The registry is a multimap from document identity to the
  attached display surfaces; \<open>webviews\<close> gives, for a document's uri, the panels
  attached to it, in the order \<open>get\<close> yields them.
\<close>

record BinaryEditorProvider =
  requestId :: nat
  callbacks :: "nat \<rightharpoonup> callback"
  webviews :: "Uri \<Rightarrow> panel list"
  posted :: "(panel \<times> posted_message) list"
  settled :: "nat \<rightharpoonup> body"
  promise_count :: nat
  invoked :: "(nat \<times> body) list"

definition webviews_add :: "Uri \<Rightarrow> panel \<Rightarrow> BinaryEditorProvider \<Rightarrow> BinaryEditorProvider" where
  "webviews_add u pn p = p\<lparr>webviews := (webviews p)(u := webviews p u @ [pn])\<rparr>"

definition new_BinaryEditorProvider :: BinaryEditorProvider where
  "new_BinaryEditorProvider =
     \<lparr>requestId = 1, callbacks = Map.empty, webviews = (\<lambda>_. []), posted = [],
      settled = Map.empty, promise_count = 0, invoked = []\<rparr>"

text \<open>
  \<open>_requestId\<close> is a JavaScript number, an IEEE double: below \<open>2 ^ 53\<close> adding one is
  exact, and at \<open>2 ^ 53\<close> the sum rounds back to \<open>2 ^ 53\<close>. The counter starts at 1 and
  only \<open>_requestId++\<close> changes it, so it never holds a value above \<open>2 ^ 53\<close>.
\<close>

definition exact_limit :: nat where
  "exact_limit = 2 ^ 53"

definition js_increment :: "nat \<Rightarrow> nat" where
  "js_increment n = (if n < exact_limit then n + 1 else n)"

text \<open>Returns the identifier it allocated and the number of the promise it returns.\<close>

definition postMessageWithResponse ::
  "panel \<Rightarrow> string \<Rightarrow> body \<Rightarrow> BinaryEditorProvider \<Rightarrow> (nat \<times> nat) \<times> BinaryEditorProvider" where
  "postMessageWithResponse pn ty b p =
     (let rid = requestId p;
          k = promise_count p
      in ((rid, k),
          p\<lparr>requestId := js_increment rid,
            promise_count := Suc k,
            callbacks := (callbacks p)(rid \<mapsto> Resolve k),
            posted := posted p @ [(pn, \<lparr>msg_type = ty, msg_requestId = Some rid, msg_body = b\<rparr>)]\<rparr>))"

definition postMessage :: "panel \<Rightarrow> string \<Rightarrow> body \<Rightarrow> BinaryEditorProvider \<Rightarrow> BinaryEditorProvider" where
  "postMessage pn ty b p =
     p\<lparr>posted := posted p @ [(pn, \<lparr>msg_type = ty, msg_requestId = None, msg_body = b\<rparr>)]\<rparr>"

text \<open>
  Calling a promise's \<open>resolve\<close>: the call is recorded in \<open>invoked\<close>; it settles the
  promise if nothing has settled it before.
\<close>

definition call_callback :: "callback \<Rightarrow> body \<Rightarrow> BinaryEditorProvider \<Rightarrow> BinaryEditorProvider" where
  "call_callback c b p =
     (case c of Resolve k \<Rightarrow>
        p\<lparr>invoked := invoked p @ [(k, b)],
          settled := (case settled p k of None \<Rightarrow> (settled p)(k \<mapsto> b) | Some _ \<Rightarrow> settled p)\<rparr>)"

text \<open>The \<open>'response'\<close> case of \<open>onMessage\<close>: \<open>callback?.(message.body)\<close>.\<close>

definition onResponse :: "nat \<Rightarrow> body \<Rightarrow> BinaryEditorProvider \<Rightarrow> BinaryEditorProvider" where
  "onResponse rid b p = (case callbacks p rid of None \<Rightarrow> p | Some c \<Rightarrow> call_callback c b p)"

definition onMessage :: "message \<Rightarrow> world \<times> BinaryEditorProvider \<Rightarrow> world \<times> BinaryEditorProvider" where
  "onMessage m s =
     (case s of (w, p) \<Rightarrow>
        (case m of
           Update e \<Rightarrow> (makeEdit e w, p)
         | Response rid b \<Rightarrow> (w, onResponse rid b p)
         | Ready \<Rightarrow> (w, p)
         | Other _ \<Rightarrow> (w, p)))"

text \<open>
  The second listener that \<open>resolveCustomEditor\<close> puts on the panel answers
  \<open>'ready'\<close> with \<open>'init'\<close>; the listener that \<open>openCustomDocument\<close> puts on
  \<open>onDidChangeContent\<close> sends the event to every webview of the document.
\<close>

definition onReady :: "panel \<Rightarrow> world \<Rightarrow> BinaryEditorProvider \<Rightarrow> BinaryEditorProvider" where
  "onReady pn w p =
     (if scheme (uri (doc w)) = ''untitled'' then postMessage pn ''init'' InitUntitled p
      else postMessage pn ''init'' (InitValue (documentData (doc w))) p)"

definition onDidChangeContent ::
  "Uri \<Rightarrow> bytes option \<Rightarrow> BinaryEdit list \<Rightarrow> BinaryEditorProvider \<Rightarrow> BinaryEditorProvider" where
  "onDidChangeContent u content es p =
     fold (\<lambda>pn. postMessage pn ''update'' (UpdateBody content es)) (webviews p u) p"

text \<open>\<open>new Uint8Array(response)\<close>: each number modulo 256; no elements when there is no array.\<close>

definition to_Uint8Array :: "body \<Rightarrow> bytes" where
  "to_Uint8Array b = (case b of NumberArray ns \<Rightarrow> map word_of_int ns | _ \<Rightarrow> [])"

text \<open>
  The delegate that \<open>openCustomDocument\<close> gives the document at \<open>u\<close>. \<open>reply\<close> is the
  webview: what the panel answers to the request with that identifier, if it ever
  answers; its answer comes back as a \<open>'response'\<close> message.
\<close>

definition getFileData ::
  "(panel \<Rightarrow> nat \<Rightarrow> body option) \<Rightarrow> Uri \<Rightarrow> BinaryEditorProvider \<Rightarrow> bytes outcome \<times> BinaryEditorProvider" where
  "getFileData reply u p =
     (case webviews p u of
        [] \<Rightarrow> (Rejected NoWebviewError, p)
      | pn # _ \<Rightarrow>
          (case postMessageWithResponse pn ''getFileData'' NoBody p of
             ((rid, k), p1) \<Rightarrow>
               (case reply pn rid of
                  None \<Rightarrow> (Pending, p1)
                | Some b \<Rightarrow>
                    (let p2 = onResponse rid b p1
                     in case settled p2 k of
                          None \<Rightarrow> (Pending, p2)
                        | Some r \<Rightarrow> (Resolved (to_Uint8Array r), p2)))))"

definition saveCustomDocument ::
  "(panel \<Rightarrow> nat \<Rightarrow> body option) \<Rightarrow> bool \<Rightarrow> world \<times> BinaryEditorProvider
     \<Rightarrow> unit outcome \<times> world \<times> BinaryEditorProvider" where
  "saveCustomDocument reply cancellation s =
     save (getFileData reply (uri (doc (fst s)))) cancellation s"

definition saveCustomDocumentAs ::
  "(panel \<Rightarrow> nat \<Rightarrow> body option) \<Rightarrow> Uri \<Rightarrow> bool \<Rightarrow> world \<times> BinaryEditorProvider
     \<Rightarrow> unit outcome \<times> world \<times> BinaryEditorProvider" where
  "saveCustomDocumentAs reply destination cancellation s =
     saveAs (getFileData reply (uri (doc (fst s)))) destination cancellation s"

definition backupCustomDocument ::
  "(Uri \<Rightarrow> string) \<Rightarrow> (panel \<Rightarrow> nat \<Rightarrow> body option) \<Rightarrow> Uri \<Rightarrow> bool
     \<Rightarrow> world \<times> BinaryEditorProvider
     \<Rightarrow> CustomDocumentBackup outcome \<times> world \<times> BinaryEditorProvider" where
  "backupCustomDocument toString reply destination cancellation s =
     backup toString (getFileData reply (uri (doc (fst s)))) destination cancellation s"

text \<open>
  A run of the provider's three messaging operations, with the identifiers that
  \<open>postMessageWithResponse\<close> allocated, in order.
\<close>

datatype bridge_op =
    RequestWithResponse panel string body
  | Notify panel string body
  | Incoming nat body

fun allocated :: "bridge_op list \<Rightarrow> BinaryEditorProvider \<Rightarrow> nat list \<times> BinaryEditorProvider" where
  "allocated [] p = ([], p)"
| "allocated (RequestWithResponse pn ty b # ops) p =
     (case postMessageWithResponse pn ty b p of
        ((rid, _), p') \<Rightarrow> (case allocated ops p' of (rids, p'') \<Rightarrow> (rid # rids, p'')))"
| "allocated (Notify pn ty b # ops) p = allocated ops (postMessage pn ty b p)"
| "allocated (Incoming rid b # ops) p = allocated ops (onResponse rid b p)"

fun requests :: "bridge_op list \<Rightarrow> nat" where
  "requests [] = 0"
| "requests (RequestWithResponse _ _ _ # ops) = Suc (requests ops)"
| "requests (_ # ops) = requests ops"

text \<open>Edits applied in order, and undo closures invoked most recent first.\<close>

fun makeEdits :: "BinaryEdit list \<Rightarrow> world \<Rightarrow> world" where
  "makeEdits [] w = w"
| "makeEdits (e # es) w = makeEdits es (makeEdit e w)"

fun undos :: "nat \<Rightarrow> world \<Rightarrow> world" where
  "undos 0 w = w"
| "undos (Suc m) w = undos m (undo w)"

section \<open>Sample inputs\<close>

definition file_uri :: Uri where
  "file_uri = \<lparr>scheme = ''file'', path = ''/work/a.bin''\<rparr>"

definition backup_uri :: Uri where
  "backup_uri = \<lparr>scheme = ''file'', path = ''/backups/a.bin''\<rparr>"

definition missing_uri :: Uri where
  "missing_uri = \<lparr>scheme = ''file'', path = ''/work/none.bin''\<rparr>"

definition untitled_uri :: Uri where
  "untitled_uri = \<lparr>scheme = ''untitled'', path = ''/work/new-1.bin''\<rparr>"

definition sample_parse :: "string \<Rightarrow> Uri" where
  "sample_parse s = \<lparr>scheme = takeWhile (\<lambda>c. c \<noteq> CHR '':'') s, path = tl (dropWhile (\<lambda>c. c \<noteq> CHR '':'') s)\<rparr>"

text \<open>A stand-in for \<open>Uri.toString\<close>, the inverse of \<open>sample_parse\<close>.\<close>

definition sample_toString :: "Uri \<Rightarrow> string" where
  "sample_toString u = scheme u @ '':'' @ path u"

definition sample_fs :: FileSystem where
  "sample_fs = \<lparr>files = [file_uri \<mapsto> [1, 2, 3], backup_uri \<mapsto> [4, 5]], refuses = (\<lambda>_. False)\<rparr>"

definition empty_store :: store where
  "empty_store = \<lparr>cells = (\<lambda>_. []), next_addr = 0\<rparr>"

definition sample_world :: world where
  "sample_world = new_BinaryDocument file_uri [1, 2, 3] sample_fs empty_store"

definition E1 :: BinaryEdit where
  "E1 = BinaryEdit [1, 2, 3]"

definition E2 :: BinaryEdit where
  "E2 = BinaryEdit [1, 2, 3, 4]"

definition E3 :: BinaryEdit where
  "E3 = BinaryEdit [9]"

text \<open>A delegate that is fulfilled with the bytes 7, 8 and leaves its own state alone.\<close>

definition sample_delegate :: "unit \<Rightarrow> bytes outcome \<times> unit" where
  "sample_delegate p = (Resolved [7, 8], p)"

text \<open>A provider that has sent one request, to panel 0.\<close>

definition requested_provider :: BinaryEditorProvider where
  "requested_provider = snd (postMessageWithResponse 0 ''getFileData'' NoBody new_BinaryEditorProvider)"

text \<open>A webview that answers every request with the numbers 7, 8.\<close>

definition sample_reply :: "panel \<Rightarrow> nat \<Rightarrow> body option" where
  "sample_reply pn rid = Some (NumberArray [7, 8])"

text \<open>The document opened from the backup, whose bytes are 4, 5.\<close>

definition backup_opened_world :: world where
  "backup_opened_world = new_BinaryDocument file_uri [4, 5] sample_fs empty_store"

definition untitled_world :: world where
  "untitled_world = new_BinaryDocument untitled_uri [] sample_fs empty_store"

text \<open>After one edit and a save that was not cancelled; and after the revert that follows.\<close>

definition saved_world :: world where
  "saved_world = fst (snd (save sample_delegate False (makeEdit E1 sample_world, ())))"

definition reverted_world :: world where
  "reverted_world = (case revert saved_world of Inr w \<Rightarrow> w | Inl _ \<Rightarrow> saved_world)"

definition twice_reverted_world :: world where
  "twice_reverted_world =
     (case revert (makeEdit E2 reverted_world) of Inr w \<Rightarrow> w | Inl _ \<Rightarrow> reverted_world)"

text \<open>
  After \<open>E1\<close>, a save, \<open>E2\<close> and a revert; and after \<open>E3\<close> and one more revert.
\<close>

definition second_edit_reverted_world :: world where
  "second_edit_reverted_world =
     (case revert (makeEdit E2 saved_world) of Inr w \<Rightarrow> w | Inl _ \<Rightarrow> saved_world)"

definition third_edit_reverted_world :: world where
  "third_edit_reverted_world =
     (case revert (makeEdit E3 second_edit_reverted_world) of
        Inr w \<Rightarrow> w
      | Inl _ \<Rightarrow> second_edit_reverted_world)"

text \<open>A backup location whose scheme is \<open>untitled\<close>, and a file system with a file there.\<close>

definition untitled_backup_uri :: Uri where
  "untitled_backup_uri = \<lparr>scheme = ''untitled'', path = ''/backups/a.bin''\<rparr>"

definition untitled_backup_fs :: FileSystem where
  "untitled_backup_fs = \<lparr>files = [untitled_backup_uri \<mapsto> [4, 5]], refuses = (\<lambda>_. False)\<rparr>"

text \<open>One request more than \<open>exact_limit\<close>.\<close>

definition limit_requests :: "bridge_op list" where
  "limit_requests = replicate (Suc exact_limit) (RequestWithResponse 0 ''getFileData'' NoBody)"

definition sample_ops :: "bridge_op list" where
  "sample_ops =
     [RequestWithResponse 0 ''getFileData'' NoBody, Incoming 1 (NumberArray [7, 8]),
      Notify 0 ''update'' NoBody, RequestWithResponse 0 ''getFileData'' NoBody]"

section \<open>The edit list\<close>

lemma edits_of_makeEdit: "edits_of (makeEdit e w) = edits_of w @ [e]"
  by (simp add: edits_of_def makeEdit_def array_push_def)

lemma edits_of_undo: "edits_of (undo w) = butlast (edits_of w)"
  by (simp add: edits_of_def undo_def array_pop_def)

lemma edits_of_redo: "edits_of (redo e w) = edits_of w @ [e]"
  by (simp add: edits_of_def redo_def array_push_def)

lemma edits_of_makeEdits: "edits_of (makeEdits es w) = edits_of w @ es"
  by (induction es arbitrary: w) (simp_all add: edits_of_makeEdit)

lemma edits_of_undos: "edits_of (undos m w) = take (length (edits_of w) - m) (edits_of w)"
proof (induction m arbitrary: w)
  case 0
  show ?case by simp
next
  case (Suc m)
  have "edits_of (undos (Suc m) w) = take (length (butlast (edits_of w)) - m) (butlast (edits_of w))"
    using Suc [of "undo w"] by (simp add: edits_of_undo)
  also have "\<dots> = take (length (edits_of w) - Suc m) (edits_of w)"
    by (simp add: butlast_conv_take min_def)
  finally show ?case .
qed

lemma new_BinaryDocument_lists:
  "edits_of (new_BinaryDocument u c f h) = []"
  "savedEdits_of (new_BinaryDocument u c f h) = []"
  "uri (doc (new_BinaryDocument u c f h)) = u"
  "documentData (doc (new_BinaryDocument u c f h)) = c"
  "edits (doc (new_BinaryDocument u c f h)) \<noteq> savedEdits (doc (new_BinaryDocument u c f h))"
  "fired (new_BinaryDocument u c f h) = []"
  "fs (new_BinaryDocument u c f h) = f"
  by (simp_all add: new_BinaryDocument_def array_new_def edits_of_def savedEdits_of_def)

lemma sample_edit_lists:
  "edits_of sample_world = []"
  "edits_of backup_opened_world = []"
  "savedEdits_of backup_opened_world = []"
  "edits_of untitled_world = []"
  "savedEdits_of untitled_world = []"
  by (simp_all add: sample_world_def backup_opened_world_def untitled_world_def new_BinaryDocument_lists)

text \<open>
  C5, as the claim states it, fails. After \<open>E1\<close>, a save, \<open>E2\<close>, a revert, \<open>E3\<close> and a
  second revert the edit list is \<open>E1, E3\<close>. The undo closure of \<open>makeEdit E1\<close> then
  removes \<open>E3\<close>, and its redo closure appends \<open>E1\<close>: the list is \<open>E1, E1\<close>, not the
  list before the undo.
\<close>

theorem stale_undo_then_redo:
  "revert (makeEdit E2 saved_world) = Inr second_edit_reverted_world
   \<and> revert (makeEdit E3 second_edit_reverted_world) = Inr third_edit_reverted_world
   \<and> edits_of third_edit_reverted_world = [E1, E3]
   \<and> edits_of (undo third_edit_reverted_world) = [E1]
   \<and> edits_of (redo E1 (undo third_edit_reverted_world)) = [E1, E1]"
  by (simp add: third_edit_reverted_world_def second_edit_reverted_world_def saved_world_def
        revert_def readFile_def fs_readFile_def fs_writeFile_def save_def saveAs_def makeEdit_def
        undo_def redo_def array_push_def array_pop_def array_from_def edits_of_def
        sample_world_def new_BinaryDocument_def array_new_def empty_store_def
        sample_delegate_def sample_fs_def file_uri_def)

text \<open>
  C5, amended. For every document and every edit \<open>e\<close>: the undo closure removes the
  last element of the edit list, whatever it is (nothing when the list is empty),
  and the redo closure of \<open>makeEdit e\<close> appends \<open>e\<close>. So whenever the edit list ends
  with \<open>e\<close>, as it does right after \<open>makeEdit e\<close>, undo followed at once by redo
  leaves the edit list as it was before the undo, in content and in length, with
  \<open>e\<close> as its last element again.
\<close>

theorem undo_then_redo:
  "edits_of (redo e (undo (makeEdit e w))) = edits_of (makeEdit e w)
   \<and> edits_of (makeEdit e w) = edits_of w @ [e]
   \<and> edits_of (redo e (undo w)) = butlast (edits_of w) @ [e]
   \<and> (edits_of w \<noteq> [] \<and> last (edits_of w) = e \<longrightarrow>
        edits_of (redo e (undo w)) = edits_of w
        \<and> length (edits_of (redo e (undo w))) = length (edits_of w))"
  by (auto simp add: edits_of_makeEdit edits_of_undo edits_of_redo)

theorem undo_then_redo_witness:
  "edits_of (makeEdit E1 sample_world) \<noteq> []
   \<and> last (edits_of (makeEdit E1 sample_world)) = E1
   \<and> edits_of (redo E1 (undo (makeEdit E1 sample_world))) = [E1]
   \<and> edits_of (makeEdit E1 sample_world) = [E1]"
proof -
  have a: "edits_of (makeEdit E1 sample_world) = [E1]"
    by (simp add: edits_of_makeEdit sample_edit_lists)
  show ?thesis
    using a undo_then_redo [of E1 "makeEdit E1 sample_world"] by simp
qed

text \<open>
  C6. On a newly constructed document, after the edits \<open>es\<close> (N of them) have been
  applied in order and M \<open>\<le>\<close> N undo closures have run, the edit list is the first
  N - M edits, so its length is N - M; and each of these undo steps finds a
  non-empty list and removes exactly its last element, the most recently applied
  edit that remains.
\<close>

theorem undos_after_makeEdits:
  assumes "m \<le> length es"
  shows "edits_of (undos m (makeEdits es (new_BinaryDocument u c f h))) = take (length es - m) es
         \<and> length (edits_of (undos m (makeEdits es (new_BinaryDocument u c f h)))) = length es - m
         \<and> (\<forall>k<m. edits_of (undos (Suc k) (makeEdits es (new_BinaryDocument u c f h)))
                    = butlast (edits_of (undos k (makeEdits es (new_BinaryDocument u c f h))))
                  \<and> edits_of (undos k (makeEdits es (new_BinaryDocument u c f h))) \<noteq> [])"
  using assms
  by (auto simp add: edits_of_undos edits_of_makeEdits new_BinaryDocument_lists butlast_take
        simp del: undos.simps)

theorem undos_after_makeEdits_witness:
  "(1::nat) \<le> length [E1, E2]
   \<and> edits_of (undos 1 (makeEdits [E1, E2] (new_BinaryDocument untitled_uri [] sample_fs empty_store)))
       = [E1]
   \<and> edits_of (undos 0 (makeEdits [E1, E2] (new_BinaryDocument untitled_uri [] sample_fs empty_store)))
       = [E1, E2]"
proof -
  have a: "(1::nat) \<le> length [E1, E2]"
    by simp
  have b: "edits_of (undos 0 (makeEdits [E1, E2] (new_BinaryDocument untitled_uri [] sample_fs empty_store)))
             = [E1, E2]"
    by (simp add: edits_of_makeEdit new_BinaryDocument_lists)
  show ?thesis
    using a b undos_after_makeEdits [OF a, of untitled_uri "[]" sample_fs empty_store]
    by simp
qed

section \<open>Responses\<close>

text \<open>
  C1, as the claim states it, fails. A provider sends one request (identifier 1) and
  its response arrives: the entry for 1 is still in \<open>_callbacks\<close> afterwards, and a
  second response with identifier 1 calls the same callback a second time.
\<close>

theorem response_keeps_entry:
  "callbacks (snd (onMessage (Response 1 (NumberArray [7, 8])) (sample_world, requested_provider))) 1
     = Some (Resolve 0)
   \<and> invoked (snd (onMessage (Response 1 (NumberArray [7, 8]))
                  (onMessage (Response 1 (NumberArray [7, 8])) (sample_world, requested_provider))))
     = [(0, NumberArray [7, 8]), (0, NumberArray [7, 8])]"
  by (simp add: onMessage_def onResponse_def call_callback_def postMessageWithResponse_def
        requested_provider_def new_BinaryEditorProvider_def js_increment_def)

text \<open>
  C1, amended. A \<open>'response'\<close> message leaves the document, the correlation map and
  the request counter unchanged. When its identifier has an entry, that entry's
  callback is called once for this message with the carried payload; the call
  settles the promise with the payload if the promise was not settled, and leaves
  a settled promise with the value it has. When the identifier has no entry,
  nothing changes and no error is raised.
\<close>

theorem onMessage_response:
  "fst (onMessage (Response rid b) (w, p)) = w
   \<and> callbacks (snd (onMessage (Response rid b) (w, p))) = callbacks p
   \<and> requestId (snd (onMessage (Response rid b) (w, p))) = requestId p
   \<and> (callbacks p rid = Some (Resolve k) \<longrightarrow>
        invoked (snd (onMessage (Response rid b) (w, p))) = invoked p @ [(k, b)])
   \<and> (callbacks p rid = Some (Resolve k) \<and> settled p k = None \<longrightarrow>
        settled (snd (onMessage (Response rid b) (w, p))) k = Some b)
   \<and> (callbacks p rid = Some (Resolve k) \<and> settled p k = Some v \<longrightarrow>
        settled (snd (onMessage (Response rid b) (w, p))) k = Some v)
   \<and> (callbacks p rid = None \<longrightarrow> snd (onMessage (Response rid b) (w, p)) = p)"
  by (simp add: onMessage_def onResponse_def call_callback_def split: option.splits callback.splits)

theorem onMessage_response_witness:
  "callbacks requested_provider 1 = Some (Resolve 0)
   \<and> settled requested_provider 0 = None
   \<and> invoked (snd (onMessage (Response 1 (NumberArray [7, 8])) (sample_world, requested_provider)))
       = [(0, NumberArray [7, 8])]
   \<and> settled (snd (onMessage (Response 1 (NumberArray [7, 8])) (sample_world, requested_provider))) 0
       = Some (NumberArray [7, 8])
   \<and> callbacks (onResponse 1 (NumberArray [7, 8]) requested_provider) 1 = Some (Resolve 0)
   \<and> settled (onResponse 1 (NumberArray [7, 8]) requested_provider) 0 = Some (NumberArray [7, 8])
   \<and> settled (snd (onMessage (Response 1 NoBody)
                   (sample_world, onResponse 1 (NumberArray [7, 8]) requested_provider))) 0
       = Some (NumberArray [7, 8])
   \<and> callbacks requested_provider 2 = None
   \<and> snd (onMessage (Response 2 (NumberArray [7, 8])) (sample_world, requested_provider))
       = requested_provider"
proof -
  have a: "callbacks requested_provider 1 = Some (Resolve 0)"
    and b: "settled requested_provider 0 = None"
    and c: "callbacks requested_provider 2 = None"
    and d: "invoked requested_provider = []"
    by (simp_all add: requested_provider_def postMessageWithResponse_def new_BinaryEditorProvider_def)
  have e: "callbacks (onResponse 1 (NumberArray [7, 8]) requested_provider) 1 = Some (Resolve 0)"
    and f: "settled (onResponse 1 (NumberArray [7, 8]) requested_provider) 0 = Some (NumberArray [7, 8])"
    using a b by (simp_all add: onResponse_def call_callback_def)
  show ?thesis
    using a b c d e f
      onMessage_response [of 1 "NumberArray [7, 8]" sample_world requested_provider 0]
      onMessage_response [of 1 NoBody sample_world "onResponse 1 (NumberArray [7, 8]) requested_provider"
        0 "NumberArray [7, 8]"]
      onMessage_response [of 2 "NumberArray [7, 8]" sample_world requested_provider 0]
    by simp
qed

section \<open>Saving\<close>

text \<open>
  In every state, a save whose token is found cancelled once the delegate is
  fulfilled writes nothing and still replaces the saved-edits list by a copy of the
  edit list.
\<close>

lemma cancelled_save_in_general:
  assumes "delegate p = (Resolved fileData, p')"
  shows "save delegate True (w, p) =
           (Resolved (),
            w\<lparr>doc := (doc w)\<lparr>savedEdits := next_addr (heap w)\<rparr>,
              heap := snd (array_from (heap w) (edits (doc w)))\<rparr>, p')"
    and "fs (fst (snd (save delegate True (w, p)))) = fs w"
    and "savedEdits_of (fst (snd (save delegate True (w, p)))) = edits_of w"
  using assms
  by (simp_all add: save_def saveAs_def array_from_def savedEdits_of_def edits_of_def)

text \<open>
  While \<open>_edits\<close> and \<open>_savedEdits\<close> are different arrays, edits leave the saved-edits
  list alone; \<open>save\<close> makes them different, and \<open>revert\<close> makes them the same array.
\<close>

lemma savedEdits_of_makeEdits:
  "edits (doc w) \<noteq> savedEdits (doc w) \<Longrightarrow> savedEdits_of (makeEdits es w) = savedEdits_of w"
proof (induction es arbitrary: w)
  case Nil
  show ?case by simp
next
  case (Cons e es)
  have "edits (doc (makeEdit e w)) \<noteq> savedEdits (doc (makeEdit e w))"
    using Cons.prems by (simp add: makeEdit_def)
  then have "savedEdits_of (makeEdits es (makeEdit e w)) = savedEdits_of (makeEdit e w)"
    by (rule Cons.IH)
  also have "\<dots> = savedEdits_of w"
    using Cons.prems by (simp add: makeEdit_def savedEdits_of_def array_push_def)
  finally show ?case by simp
qed

lemma snapshot_after_save:
  assumes "edits (doc w) < next_addr (heap w)"
    and "save delegate False (w, p) = (Resolved (), w', p')"
  shows "savedEdits_of w' = edits_of w'"
    and "savedEdits_of (makeEdits es w') = savedEdits_of w'"
proof -
  have shape: "edits (doc w') = edits (doc w) \<and> savedEdits (doc w') = next_addr (heap w)
               \<and> cells (heap w') (next_addr (heap w)) = cells (heap w') (edits (doc w))"
    using assms
    by (auto simp add: save_def saveAs_def array_from_def
          split: prod.splits outcome.splits sum.splits if_splits)
  then show "savedEdits_of w' = edits_of w'"
    by (simp add: savedEdits_of_def edits_of_def)
  have "edits (doc w') \<noteq> savedEdits (doc w')"
    using shape assms(1) by simp
  then show "savedEdits_of (makeEdits es w') = savedEdits_of w'"
    by (rule savedEdits_of_makeEdits)
qed

lemma revert_shares_array:
  "revert w = Inr w' \<Longrightarrow> edits (doc w') = savedEdits (doc w')"
  by (auto simp add: revert_def Let_def split: sum.splits)

lemma edit_of_shared_array:
  "edits (doc w) = savedEdits (doc w) \<Longrightarrow> savedEdits_of (makeEdit e w) = savedEdits_of w @ [e]"
  by (simp add: makeEdit_def savedEdits_of_def array_push_def)

text \<open>
  C2 at a failing input. The document has one edit and an empty saved-edits list;
  \<open>save\<close> runs, the delegate is fulfilled, and the token is then found cancelled.
  The call succeeds, the file system is as before, and the saved-edits list has
  become the edit list.
\<close>

theorem cancelled_save_updates_snapshot:
  "savedEdits_of (makeEdit E1 sample_world) = []
   \<and> fst (save sample_delegate True (makeEdit E1 sample_world, ())) = Resolved ()
   \<and> fs (fst (snd (save sample_delegate True (makeEdit E1 sample_world, ())))) = sample_fs
   \<and> savedEdits_of (fst (snd (save sample_delegate True (makeEdit E1 sample_world, ())))) = [E1]"
  by (simp add: save_def saveAs_def makeEdit_def array_push_def array_from_def savedEdits_of_def
        sample_world_def new_BinaryDocument_def array_new_def empty_store_def sample_delegate_def)

text \<open>
  C3 at a failing input. One edit, then a save that is not cancelled and succeeds:
  the saved-edits list is that one edit. A revert follows, and then a second edit;
  no save has run since, and the saved-edits list now holds both edits.
\<close>

theorem edit_after_revert_changes_snapshot:
  "fst (save sample_delegate False (makeEdit E1 sample_world, ())) = Resolved ()
   \<and> savedEdits_of saved_world = [E1]
   \<and> revert saved_world = Inr reverted_world
   \<and> savedEdits_of reverted_world = [E1]
   \<and> savedEdits_of (makeEdit E2 reverted_world) = [E1, E2]"
  by (simp add: saved_world_def reverted_world_def revert_def readFile_def fs_readFile_def
        fs_writeFile_def save_def saveAs_def makeEdit_def array_push_def array_from_def
        savedEdits_of_def sample_world_def new_BinaryDocument_def array_new_def empty_store_def
        sample_delegate_def sample_fs_def file_uri_def)

section \<open>Reverting\<close>

text \<open>
  What \<open>revert\<close> does in every state. Whenever reading the document's own resource
  succeeds, \<open>revert\<close> succeeds: the byte buffer becomes the bytes read, the edit
  list becomes what the saved-edits list holds at that moment, and exactly one
  content-changed event is fired, carrying those bytes and that list. The bytes are
  the file at the document's uri, or no bytes when the uri is untitled; a document
  opened from a backup is reverted to the bytes of its resource, not of the backup.
\<close>

lemma revert_in_general:
  "(readFile (fs w) (uri (doc w)) = Inr diskContent \<longrightarrow>
      (\<exists>w'. revert w = Inr w'
         \<and> documentData (doc w') = diskContent
         \<and> edits_of w' = savedEdits_of w
         \<and> savedEdits_of w' = savedEdits_of w
         \<and> fired w' = fired w @ [DidChangeContent (Some diskContent) (savedEdits_of w)]
         \<and> uri (doc w') = uri (doc w) \<and> fs w' = fs w))
   \<and> (readFile (fs w) (uri (doc w)) = Inr diskContent \<and> scheme (uri (doc w)) \<noteq> ''untitled'' \<longrightarrow>
        fs_readFile (fs w) (uri (doc w)) = Inr diskContent)
   \<and> (readFile (fs w) (uri (doc w)) = Inr diskContent \<and> scheme (uri (doc w)) = ''untitled'' \<longrightarrow>
        diskContent = [])
   \<and> (create parse f h u backupId = Inr w0 \<and> readFile f u = Inr c \<longrightarrow>
        (\<exists>w'. revert w0 = Inr w' \<and> documentData (doc w') = c))"
proof -
  have created: "create parse f h u backupId = Inr w0 \<longrightarrow> fs w0 = f \<and> uri (doc w0) = u"
    by (auto simp add: create_def Let_def new_BinaryDocument_lists split: sum.splits)
  have reverted: "\<And>x d. readFile (fs x) (uri (doc x)) = Inr d \<Longrightarrow>
      (\<exists>w'. revert x = Inr w'
         \<and> documentData (doc w') = d
         \<and> edits_of w' = savedEdits_of x
         \<and> savedEdits_of w' = savedEdits_of x
         \<and> fired w' = fired x @ [DidChangeContent (Some d) (savedEdits_of x)]
         \<and> uri (doc w') = uri (doc x) \<and> fs w' = fs x)"
    by (simp add: revert_def edits_of_def savedEdits_of_def)
  have scheme_cases: "readFile (fs w) (uri (doc w)) = Inr diskContent \<longrightarrow>
      (if scheme (uri (doc w)) = ''untitled'' then diskContent = []
       else fs_readFile (fs w) (uri (doc w)) = Inr diskContent)"
    by (auto simp add: readFile_def)
  have from_backup: "create parse f h u backupId = Inr w0 \<and> readFile f u = Inr c \<longrightarrow>
        (\<exists>w'. revert w0 = Inr w' \<and> documentData (doc w') = c)"
  proof
    assume h: "create parse f h u backupId = Inr w0 \<and> readFile f u = Inr c"
    then have "readFile (fs w0) (uri (doc w0)) = Inr c"
      using created by simp
    from reverted [OF this] show "\<exists>w'. revert w0 = Inr w' \<and> documentData (doc w') = c"
      by blast
  qed
  show ?thesis
    using reverted [of w diskContent] scheme_cases from_backup by auto
qed

lemma revert_in_general_example:
  "readFile (fs (makeEdit E1 backup_opened_world)) (uri (doc (makeEdit E1 backup_opened_world)))
     = Inr [1, 2, 3]
   \<and> scheme (uri (doc (makeEdit E1 backup_opened_world))) \<noteq> ''untitled''
   \<and> edits_of (makeEdit E1 backup_opened_world) = [E1]
   \<and> (\<exists>w'. revert (makeEdit E1 backup_opened_world) = Inr w'
         \<and> documentData (doc w') = [1, 2, 3]
         \<and> edits_of w' = []
         \<and> fired w' = [DidChange ''Update'' E1, DidChangeContent (Some [1, 2, 3]) []])
   \<and> fs_readFile sample_fs file_uri = Inr [1, 2, 3]
   \<and> readFile (fs untitled_world) (uri (doc untitled_world)) = Inr []
   \<and> scheme (uri (doc untitled_world)) = ''untitled''
   \<and> create sample_parse sample_fs empty_store file_uri (Some ''file:/backups/a.bin'')
       = Inr backup_opened_world
   \<and> documentData (doc backup_opened_world) = [4, 5]
   \<and> (\<exists>w'. revert backup_opened_world = Inr w' \<and> documentData (doc w') = [1, 2, 3])"
proof -
  let ?w = "makeEdit E1 backup_opened_world"
  have same: "fs ?w = sample_fs" "uri (doc ?w) = file_uri" "fired ?w = [DidChange ''Update'' E1]"
    "savedEdits_of ?w = []"
    by (simp_all add: makeEdit_def backup_opened_world_def new_BinaryDocument_lists
          savedEdits_of_def array_push_def new_BinaryDocument_def array_new_def)
  have rd: "fs_readFile sample_fs file_uri = Inr [1, 2, 3]" "readFile sample_fs file_uri = Inr [1, 2, 3]"
    by (simp_all add: readFile_def fs_readFile_def sample_fs_def file_uri_def backup_uri_def)
  have a: "readFile (fs ?w) (uri (doc ?w)) = Inr [1, 2, 3]"
    using same rd by simp
  have b: "scheme (uri (doc ?w)) \<noteq> ''untitled''"
    using same by (simp add: file_uri_def)
  have c: "edits_of ?w = [E1]"
    by (simp add: edits_of_makeEdit sample_edit_lists)
  have d: "readFile (fs untitled_world) (uri (doc untitled_world)) = Inr []"
    "scheme (uri (doc untitled_world)) = ''untitled''"
    by (simp_all add: untitled_world_def new_BinaryDocument_lists readFile_def untitled_uri_def)
  have e: "create sample_parse sample_fs empty_store file_uri (Some ''file:/backups/a.bin'')
             = Inr backup_opened_world"
    by (simp add: create_def readFile_def fs_readFile_def sample_parse_def sample_fs_def
          backup_uri_def file_uri_def backup_opened_world_def)
  have g: "documentData (doc backup_opened_world) = [4, 5]"
    by (simp add: backup_opened_world_def new_BinaryDocument_lists)
  show ?thesis
    using a b c d e g rd same
      revert_in_general [of ?w "[1, 2, 3]" sample_parse sample_fs empty_store file_uri
        "Some ''file:/backups/a.bin''" backup_opened_world "[1, 2, 3]"]
      revert_in_general [of untitled_world "[]" sample_parse sample_fs empty_store file_uri
        "Some ''file:/backups/a.bin''" backup_opened_world "[1, 2, 3]"]
    by auto
qed

text \<open>
  C4 at a failing input. One edit \<open>E1\<close>, a save that succeeds, a revert, a second
  edit \<open>E2\<close>, and a second revert. The last save was taken when the edit list was
  \<open>E1\<close> alone; after the second revert the edit list still holds \<open>E2\<close>.
\<close>

theorem second_revert_keeps_edit:
  "fst (save sample_delegate False (makeEdit E1 sample_world, ())) = Resolved ()
   \<and> edits_of saved_world = [E1]
   \<and> revert saved_world = Inr reverted_world
   \<and> edits_of reverted_world = [E1]
   \<and> edits_of (makeEdit E2 reverted_world) = [E1, E2]
   \<and> revert (makeEdit E2 reverted_world) = Inr twice_reverted_world
   \<and> edits_of twice_reverted_world = [E1, E2]
   \<and> documentData (doc twice_reverted_world) = [7, 8]"
  by (simp add: twice_reverted_world_def saved_world_def reverted_world_def revert_def readFile_def
        fs_readFile_def fs_writeFile_def save_def saveAs_def makeEdit_def array_push_def
        array_from_def edits_of_def sample_world_def new_BinaryDocument_def array_new_def
        empty_store_def sample_delegate_def sample_fs_def file_uri_def)

section \<open>Request identifiers\<close>

lemma requestId_postMessageWithResponse:
  "requestId (snd (postMessageWithResponse pn ty b p)) = js_increment (requestId p)"
  by (simp add: postMessageWithResponse_def Let_def)

lemma requestId_postMessage: "requestId (postMessage pn ty b p) = requestId p"
  by (simp add: postMessage_def)

lemma requestId_onResponse: "requestId (onResponse rid b p) = requestId p"
  by (simp add: onResponse_def call_callback_def split: option.splits callback.splits)

lemma allocated_request:
  "fst (allocated (RequestWithResponse pn ty b # ops) p)
     = requestId p # fst (allocated ops (snd (postMessageWithResponse pn ty b p)))"
  by (simp add: postMessageWithResponse_def Let_def split: prod.splits)

lemma allocated_interval:
  "requestId p + requests ops \<le> exact_limit + 1 \<Longrightarrow>
     fst (allocated ops p) = [requestId p ..< requestId p + requests ops]"
proof (induction ops arbitrary: p)
  case Nil
  show ?case by simp
next
  case (Cons x ops)
  show ?case
  proof (cases x)
    case (RequestWithResponse pn ty b)
    let ?p' = "snd (postMessageWithResponse pn ty b p)"
    have prem: "requestId p + Suc (requests ops) \<le> exact_limit + 1"
      using Cons.prems RequestWithResponse by simp
    show ?thesis
    proof (cases "requestId p < exact_limit")
      case True
      then have inc: "requestId ?p' = Suc (requestId p)"
        by (simp add: requestId_postMessageWithResponse js_increment_def)
      have "requestId ?p' + requests ops \<le> exact_limit + 1"
        using prem inc by simp
      then have "fst (allocated ops ?p') = [requestId ?p' ..< requestId ?p' + requests ops]"
        by (rule Cons.IH)
      then have "fst (allocated (x # ops) p)
                   = requestId p # [Suc (requestId p) ..< Suc (requestId p) + requests ops]"
        using inc RequestWithResponse by (simp only: allocated_request)
      also have "\<dots> = [requestId p ..< requestId p + requests (x # ops)]"
        using RequestWithResponse by (simp add: upt_conv_Cons)
      finally show ?thesis .
    next
      case False
      then have stay: "requestId ?p' = requestId p"
        by (simp add: requestId_postMessageWithResponse js_increment_def)
      have none: "requests ops = 0"
        using prem False by simp
      have "requestId ?p' + requests ops \<le> exact_limit + 1"
        using prem stay none by simp
      then have "fst (allocated ops ?p') = [requestId ?p' ..< requestId ?p' + requests ops]"
        by (rule Cons.IH)
      then have "fst (allocated ops ?p') = []"
        using none by simp
      then have "fst (allocated (x # ops) p) = [requestId p]"
        using RequestWithResponse by (simp only: allocated_request)
      also have "\<dots> = [requestId p ..< requestId p + requests (x # ops)]"
        using RequestWithResponse none by (simp add: upt_conv_Cons)
      finally show ?thesis .
    qed
  next
    case (Notify pn ty b)
    have "requestId (postMessage pn ty b p) + requests ops \<le> exact_limit + 1"
      using Cons.prems Notify by (simp add: requestId_postMessage)
    then have "fst (allocated ops (postMessage pn ty b p))
                 = [requestId (postMessage pn ty b p) ..< requestId (postMessage pn ty b p) + requests ops]"
      by (rule Cons.IH)
    then show ?thesis
      using Notify by (simp add: requestId_postMessage)
  next
    case (Incoming rid b)
    have "requestId (onResponse rid b p) + requests ops \<le> exact_limit + 1"
      using Cons.prems Incoming by (simp add: requestId_onResponse)
    then have "fst (allocated ops (onResponse rid b p))
                 = [requestId (onResponse rid b p) ..< requestId (onResponse rid b p) + requests ops]"
      by (rule Cons.IH)
    then show ?thesis
      using Incoming by (simp add: requestId_onResponse)
  qed
qed

lemma allocated_append:
  "allocated (xs @ ys) p =
     (fst (allocated xs p) @ fst (allocated ys (snd (allocated xs p))),
      snd (allocated ys (snd (allocated xs p))))"
proof (induction xs arbitrary: p)
  case Nil
  show ?case by simp
next
  case (Cons x xs)
  show ?case
    by (cases x) (simp_all add: Cons.IH split: prod.splits)
qed

lemma requests_replicate:
  "requests (replicate n (RequestWithResponse pn ty b)) = n"
  by (induction n) simp_all

lemma requestId_allocated:
  "requestId p \<le> exact_limit \<Longrightarrow>
     requestId (snd (allocated ops p)) = min (requestId p + requests ops) exact_limit"
proof (induction ops arbitrary: p)
  case Nil
  then show ?case by simp
next
  case (Cons x ops)
  show ?case
  proof (cases x)
    case (RequestWithResponse pn ty b)
    let ?p' = "snd (postMessageWithResponse pn ty b p)"
    have step: "snd (allocated (x # ops) p) = snd (allocated ops ?p')"
      using RequestWithResponse by (simp split: prod.splits)
    have rid: "requestId ?p' = js_increment (requestId p)"
      by (rule requestId_postMessageWithResponse)
    have le: "requestId ?p' \<le> exact_limit"
      using Cons.prems rid by (simp add: js_increment_def)
    have "requestId (snd (allocated ops ?p')) = min (requestId ?p' + requests ops) exact_limit"
      using le by (rule Cons.IH)
    then show ?thesis
      using step rid Cons.prems RequestWithResponse by (simp add: js_increment_def min_def)
  next
    case (Notify pn ty b)
    have "requestId (postMessage pn ty b p) \<le> exact_limit"
      using Cons.prems by (simp add: requestId_postMessage)
    from Cons.IH [OF this] show ?thesis
      using Notify by (simp add: requestId_postMessage)
  next
    case (Incoming rid b)
    have "requestId (onResponse rid b p) \<le> exact_limit"
      using Cons.prems by (simp add: requestId_onResponse)
    from Cons.IH [OF this] show ?thesis
      using Incoming by (simp add: requestId_onResponse)
  qed
qed

text \<open>
  C7, as the claim states it, fails. On a new provider, \<open>exact_limit\<close> requests are
  given the identifiers 1 to \<open>exact_limit\<close>, and the counter then stays at
  \<open>exact_limit\<close>: one more request is given \<open>exact_limit\<close> again.
\<close>

theorem request_identifier_repeats:
  "fst (allocated limit_requests new_BinaryEditorProvider) = [1 ..< Suc exact_limit] @ [exact_limit]
   \<and> \<not> distinct (fst (allocated limit_requests new_BinaryEditorProvider))
   \<and> \<not> sorted_wrt (<) (fst (allocated limit_requests new_BinaryEditorProvider))"
proof -
  let ?r = "RequestWithResponse 0 ''getFileData'' NoBody"
  let ?first = "replicate exact_limit ?r"
  let ?p = "snd (allocated ?first new_BinaryEditorProvider)"
  have pos: "0 < exact_limit"
    by (simp add: exact_limit_def)
  have start: "requestId new_BinaryEditorProvider = 1"
    by (simp add: new_BinaryEditorProvider_def)
  have split: "limit_requests = ?first @ [?r]"
    by (simp add: limit_requests_def replicate_append_same)
  have "requestId new_BinaryEditorProvider + requests ?first \<le> exact_limit + 1"
    using start by (simp add: requests_replicate)
  then have "fst (allocated ?first new_BinaryEditorProvider)
               = [requestId new_BinaryEditorProvider
                    ..< requestId new_BinaryEditorProvider + requests ?first]"
    by (rule allocated_interval)
  then have ids: "fst (allocated ?first new_BinaryEditorProvider) = [1 ..< Suc exact_limit]"
    using start by (simp add: requests_replicate del: upt_Suc)
  have "requestId new_BinaryEditorProvider \<le> exact_limit"
    using start pos by simp
  then have "requestId ?p = min (requestId new_BinaryEditorProvider + requests ?first) exact_limit"
    by (rule requestId_allocated)
  then have counter: "requestId ?p = exact_limit"
    using start by (simp add: requests_replicate)
  have "fst (allocated [?r] ?p) = requestId ?p # fst (allocated [] (snd (postMessageWithResponse 0 ''getFileData'' NoBody ?p)))"
    by (rule allocated_request)
  then have last: "fst (allocated [?r] ?p) = [exact_limit]"
    using counter by (simp only: allocated.simps fst_conv)
  have all: "fst (allocated limit_requests new_BinaryEditorProvider)
               = [1 ..< Suc exact_limit] @ [exact_limit]"
    using ids last by (simp only: split allocated_append fst_conv)
  have mem: "exact_limit \<in> set [1 ..< Suc exact_limit]"
    using pos by simp
  have nd: "\<not> distinct ([1 ..< Suc exact_limit] @ [exact_limit])"
    using mem by (simp del: upt_Suc)
  have ns: "\<not> sorted_wrt (<) ([1 ..< Suc exact_limit] @ [exact_limit])"
    using mem by (auto simp add: sorted_wrt_append simp del: upt_Suc)
  show ?thesis
    unfolding all using nd ns by blast
qed

text \<open>
  C7, amended. Over any run of the provider's messaging operations on a new
  provider that makes at most \<open>2 ^ 53\<close> requests, the identifiers allocated are
  1, 2, 3, ... in this order: the first is 1, each is greater than the one before,
  and none occurs twice.
\<close>

theorem request_identifiers_increase:
  assumes "requests ops \<le> 2 ^ 53"
  shows "fst (allocated ops new_BinaryEditorProvider) = [1 ..< Suc (requests ops)]
         \<and> sorted_wrt (<) (fst (allocated ops new_BinaryEditorProvider))
         \<and> distinct (fst (allocated ops new_BinaryEditorProvider))"
proof -
  have "requestId new_BinaryEditorProvider + requests ops \<le> exact_limit + 1"
    using assms by (simp add: new_BinaryEditorProvider_def exact_limit_def)
  then have "fst (allocated ops new_BinaryEditorProvider) = [1 ..< Suc (requests ops)]"
    using allocated_interval [of new_BinaryEditorProvider ops]
    by (simp add: new_BinaryEditorProvider_def)
  then show ?thesis
    by (simp add: sorted_wrt_upt del: upt_Suc)
qed



theorem request_identifiers_increase_witness:
  "requests sample_ops \<le> 2 ^ 53
   \<and> fst (allocated sample_ops new_BinaryEditorProvider) = [1, 2]"
proof -
  have a: "requests sample_ops \<le> 2 ^ 53" and b: "requests sample_ops = 2"
    by (simp_all add: sample_ops_def)
  have c: "[1 ..< Suc 2] = [1, 2::nat]"
    by (simp add: upt_conv_Cons)
  show ?thesis
    using a b c request_identifiers_increase [OF a] by simp
qed

section \<open>Saving without a webview\<close>

text \<open>
  C8. When no webview is registered under the document's uri, the delegate is
  rejected with the missing-webview error and leaves the provider as it was (no
  message posted, no identifier allocated); \<open>saveCustomDocument\<close>,
  \<open>saveCustomDocumentAs\<close> and \<open>backupCustomDocument\<close> are rejected with that error, and
  the document, its lists and the file system are as before.
\<close>

theorem no_webview_aborts:
  assumes "webviews p (uri (doc w)) = []"
  shows "getFileData reply (uri (doc w)) p = (Rejected NoWebviewError, p)
         \<and> saveCustomDocument reply cancellation (w, p) = (Rejected NoWebviewError, w, p)
         \<and> saveCustomDocumentAs reply destination cancellation (w, p) = (Rejected NoWebviewError, w, p)
         \<and> backupCustomDocument toString reply destination cancellation (w, p)
             = (Rejected NoWebviewError, w, p)"
  using assms
  by (simp add: getFileData_def saveCustomDocument_def saveCustomDocumentAs_def
        backupCustomDocument_def save_def saveAs_def backup_def)

theorem no_webview_aborts_witness:
  "webviews new_BinaryEditorProvider (uri (doc (makeEdit E1 sample_world))) = []
   \<and> saveCustomDocument sample_reply False (makeEdit E1 sample_world, new_BinaryEditorProvider)
       = (Rejected NoWebviewError, makeEdit E1 sample_world, new_BinaryEditorProvider)
   \<and> saveCustomDocumentAs sample_reply backup_uri False (makeEdit E1 sample_world, new_BinaryEditorProvider)
       = (Rejected NoWebviewError, makeEdit E1 sample_world, new_BinaryEditorProvider)
   \<and> backupCustomDocument sample_toString sample_reply backup_uri False
         (makeEdit E1 sample_world, new_BinaryEditorProvider)
       = (Rejected NoWebviewError, makeEdit E1 sample_world, new_BinaryEditorProvider)"
proof -
  have a: "webviews new_BinaryEditorProvider (uri (doc (makeEdit E1 sample_world))) = []"
    by (simp add: new_BinaryEditorProvider_def)
  show ?thesis
    using a no_webview_aborts [OF a, of sample_reply False backup_uri sample_toString] by simp
qed

text \<open>With a webview attached the same call goes through and writes the webview's bytes.\<close>

lemma save_with_webview_example:
  "fst (saveCustomDocument sample_reply False (makeEdit E1 sample_world, webviews_add file_uri 0 new_BinaryEditorProvider))
     = Resolved ()
   \<and> files (fs (fst (snd (saveCustomDocument sample_reply False
          (makeEdit E1 sample_world, webviews_add file_uri 0 new_BinaryEditorProvider))))) file_uri
     = Some [7, 8]"
  by (simp add: saveCustomDocument_def save_def saveAs_def getFileData_def webviews_add_def
        new_BinaryEditorProvider_def postMessageWithResponse_def onResponse_def call_callback_def
        sample_reply_def to_Uint8Array_def makeEdit_def sample_world_def new_BinaryDocument_def
        array_new_def array_from_def array_push_def empty_store_def sample_fs_def fs_writeFile_def
        file_uri_def backup_uri_def js_increment_def)

section \<open>Opening\<close>

text \<open>
  C9, as the claim states it, fails. With a backup identifier whose location has
  the scheme \<open>untitled\<close>, \<open>create\<close> does not read the backup location: the buffer is
  empty where the location holds the bytes 4, 5, and no error is returned where the
  location has no file.
\<close>

theorem create_skips_untitled_backup:
  "sample_parse ''untitled:/backups/a.bin'' = untitled_backup_uri
   \<and> fs_readFile untitled_backup_fs untitled_backup_uri = Inr [4, 5]
   \<and> create sample_parse untitled_backup_fs empty_store file_uri (Some ''untitled:/backups/a.bin'')
       = Inr (new_BinaryDocument file_uri [] untitled_backup_fs empty_store)
   \<and> documentData (doc (new_BinaryDocument file_uri [] untitled_backup_fs empty_store)) = []
   \<and> fs_readFile sample_fs untitled_backup_uri = Inl (FileSystemError untitled_backup_uri)
   \<and> create sample_parse sample_fs empty_store file_uri (Some ''untitled:/backups/a.bin'')
       = Inr (new_BinaryDocument file_uri [] sample_fs empty_store)"
  by (simp add: create_def readFile_def fs_readFile_def sample_parse_def untitled_backup_uri_def
        untitled_backup_fs_def sample_fs_def file_uri_def backup_uri_def new_BinaryDocument_lists)

text \<open>
  C9, amended. \<open>create\<close> chooses the backup location when a backup identifier is
  given and the resource otherwise. When the chosen location has the scheme
  \<open>untitled\<close> the initial buffer is empty, nothing is read and no error is raised;
  otherwise the initial bytes are read from the chosen location, and a failed read
  is returned as the error it raised. Every document returned has an empty edit
  list and an empty saved-edits list.
\<close>

theorem create_loads_initial_bytes:
  "(backupId = Some b \<and> scheme (parse b) \<noteq> ''untitled'' \<and> fs_readFile f (parse b) = Inr c \<longrightarrow>
      (\<exists>w. create parse f h u backupId = Inr w \<and> documentData (doc w) = c))
   \<and> (backupId = Some b \<and> scheme (parse b) \<noteq> ''untitled'' \<and> fs_readFile f (parse b) = Inl err \<longrightarrow>
      create parse f h u backupId = Inl err)
   \<and> (backupId = Some b \<and> scheme (parse b) = ''untitled'' \<longrightarrow>
      (\<exists>w. create parse f h u backupId = Inr w \<and> documentData (doc w) = []))
   \<and> (backupId = None \<and> scheme u \<noteq> ''untitled'' \<and> fs_readFile f u = Inr c \<longrightarrow>
      (\<exists>w. create parse f h u backupId = Inr w \<and> documentData (doc w) = c))
   \<and> (backupId = None \<and> scheme u \<noteq> ''untitled'' \<and> fs_readFile f u = Inl err \<longrightarrow>
      create parse f h u backupId = Inl err)
   \<and> (backupId = None \<and> scheme u = ''untitled'' \<longrightarrow>
      (\<exists>w. create parse f h u backupId = Inr w \<and> documentData (doc w) = []))
   \<and> (create parse f h u backupId = Inr w0 \<longrightarrow>
      edits_of w0 = [] \<and> savedEdits_of w0 = [] \<and> uri (doc w0) = u \<and> fired w0 = [])"
proof -
  have fresh: "create parse f h u backupId = Inr w0 \<longrightarrow>
      edits_of w0 = [] \<and> savedEdits_of w0 = [] \<and> uri (doc w0) = u \<and> fired w0 = []"
    by (auto simp add: create_def Let_def new_BinaryDocument_lists split: sum.splits)
  show ?thesis
    using fresh
    by (simp add: create_def readFile_def Let_def new_BinaryDocument_lists)
qed


theorem create_loads_initial_bytes_witness:
  "scheme (sample_parse ''file:/backups/a.bin'') \<noteq> ''untitled''
   \<and> fs_readFile sample_fs (sample_parse ''file:/backups/a.bin'') = Inr [4, 5]
   \<and> create sample_parse sample_fs empty_store file_uri (Some ''file:/backups/a.bin'')
       = Inr backup_opened_world
   \<and> scheme (sample_parse ''file:/work/none.bin'') \<noteq> ''untitled''
   \<and> fs_readFile sample_fs (sample_parse ''file:/work/none.bin'') = Inl (FileSystemError missing_uri)
   \<and> create sample_parse sample_fs empty_store file_uri (Some ''file:/work/none.bin'')
       = Inl (FileSystemError missing_uri)
   \<and> scheme (sample_parse ''untitled:/backups/a.bin'') = ''untitled''
   \<and> create sample_parse sample_fs empty_store file_uri (Some ''untitled:/backups/a.bin'')
       = Inr (new_BinaryDocument file_uri [] sample_fs empty_store)
   \<and> scheme file_uri \<noteq> ''untitled''
   \<and> fs_readFile sample_fs file_uri = Inr [1, 2, 3]
   \<and> create sample_parse sample_fs empty_store file_uri None = Inr sample_world
   \<and> scheme missing_uri \<noteq> ''untitled''
   \<and> fs_readFile sample_fs missing_uri = Inl (FileSystemError missing_uri)
   \<and> create sample_parse sample_fs empty_store missing_uri None = Inl (FileSystemError missing_uri)
   \<and> scheme untitled_uri = ''untitled''
   \<and> create sample_parse sample_fs empty_store untitled_uri None = Inr untitled_world
   \<and> documentData (doc untitled_world) = []
   \<and> edits_of untitled_world = [] \<and> savedEdits_of untitled_world = []"
proof -
  have p1: "sample_parse ''file:/backups/a.bin'' = backup_uri"
    and p2: "sample_parse ''file:/work/none.bin'' = missing_uri"
    and p3: "sample_parse ''untitled:/backups/a.bin'' = untitled_backup_uri"
    by (simp_all add: sample_parse_def backup_uri_def missing_uri_def untitled_backup_uri_def)
  have s3: "scheme untitled_backup_uri = ''untitled''"
    by (simp add: untitled_backup_uri_def)
  have c3: "create sample_parse sample_fs empty_store file_uri (Some ''untitled:/backups/a.bin'')
              = Inr (new_BinaryDocument file_uri [] sample_fs empty_store)"
    using p3 s3 by (simp add: create_def readFile_def)
  have s: "scheme backup_uri \<noteq> ''untitled''" "scheme missing_uri \<noteq> ''untitled''"
    "scheme file_uri \<noteq> ''untitled''" "scheme untitled_uri = ''untitled''"
    by (simp_all add: backup_uri_def missing_uri_def file_uri_def untitled_uri_def)
  have r: "fs_readFile sample_fs backup_uri = Inr [4, 5]"
    "fs_readFile sample_fs missing_uri = Inl (FileSystemError missing_uri)"
    "fs_readFile sample_fs file_uri = Inr [1, 2, 3]"
    by (simp_all add: fs_readFile_def sample_fs_def backup_uri_def missing_uri_def file_uri_def)
  have c: "create sample_parse sample_fs empty_store file_uri (Some ''file:/backups/a.bin'')
             = Inr backup_opened_world"
    "create sample_parse sample_fs empty_store file_uri None = Inr sample_world"
    "create sample_parse sample_fs empty_store untitled_uri None = Inr untitled_world"
    using p1 s r
    by (simp_all add: create_def readFile_def backup_opened_world_def sample_world_def untitled_world_def)
  show ?thesis
    using p1 p2 p3 s s3 r c c3
      create_loads_initial_bytes [of "Some ''untitled:/backups/a.bin''" "''untitled:/backups/a.bin''"
        sample_parse sample_fs "[]" empty_store file_uri "FileSystemError missing_uri"
        "new_BinaryDocument file_uri [] sample_fs empty_store"]
      create_loads_initial_bytes [of "Some ''file:/backups/a.bin''" "''file:/backups/a.bin''"
        sample_parse sample_fs "[4, 5]" empty_store file_uri "FileSystemError missing_uri"
        backup_opened_world]
      create_loads_initial_bytes [of "Some ''file:/work/none.bin''" "''file:/work/none.bin''"
        sample_parse sample_fs "[4, 5]" empty_store file_uri "FileSystemError missing_uri"
        backup_opened_world]
      create_loads_initial_bytes [of None "''file:/backups/a.bin''" sample_parse sample_fs "[1, 2, 3]"
        empty_store file_uri "FileSystemError missing_uri" sample_world]
      create_loads_initial_bytes [of None "''file:/backups/a.bin''" sample_parse sample_fs "[1, 2, 3]"
        empty_store missing_uri "FileSystemError missing_uri" sample_world]
      create_loads_initial_bytes [of None "''file:/backups/a.bin''" sample_parse sample_fs "[]"
        empty_store untitled_uri "FileSystemError missing_uri" untitled_world]
    by (simp add: untitled_world_def new_BinaryDocument_lists)
qed


section \<open>The byte buffer\<close>

text \<open>
  C10. \<open>makeEdit\<close>, the undo and redo closures, \<open>dispose\<close>, an incoming message,
  \<open>saveAs\<close>, \<open>save\<close> and \<open>backup\<close> (whatever the delegate does and however the call
  ends) leave \<open>documentData\<close> as it was. In particular a save that is not cancelled,
  with a fulfilled delegate and a location that accepts the write, succeeds and
  puts the delegate's bytes in the file while the buffer keeps its old bytes.
\<close>

theorem documentData_frame:
  "documentData (doc (makeEdit e w)) = documentData (doc w)
   \<and> documentData (doc (undo w)) = documentData (doc w)
   \<and> documentData (doc (redo e w)) = documentData (doc w)
   \<and> documentData (doc (dispose w)) = documentData (doc w)
   \<and> documentData (doc (fst (onMessage m (w, q)))) = documentData (doc w)
   \<and> documentData (doc (fst (snd (saveAs delegate target cancelled (w, p))))) = documentData (doc w)
   \<and> documentData (doc (fst (snd (save delegate cancelled (w, p))))) = documentData (doc w)
   \<and> documentData (doc (fst (snd (backup toString delegate target cancelled (w, p)))))
       = documentData (doc w)
   \<and> (delegate p = (Resolved fileData, p') \<and> \<not> refuses (fs w) (uri (doc w)) \<longrightarrow>
        fst (save delegate False (w, p)) = Resolved ()
        \<and> files (fs (fst (snd (save delegate False (w, p))))) (uri (doc w)) = Some fileData
        \<and> documentData (doc (fst (snd (save delegate False (w, p))))) = documentData (doc w))"
proof -
  have edit: "documentData (doc (makeEdit e w)) = documentData (doc w)"
    by (simp add: makeEdit_def)
  have msg: "documentData (doc (fst (onMessage m (w, q)))) = documentData (doc w)"
    by (cases m) (simp_all add: onMessage_def makeEdit_def)
  have sa: "\<And>t c. documentData (doc (fst (snd (saveAs delegate t c (w, p))))) = documentData (doc w)"
    by (simp add: saveAs_def split: prod.splits outcome.splits sum.splits)
  have sv: "\<And>c. documentData (doc (fst (snd (save delegate c (w, p))))) = documentData (doc w)"
    by (simp add: save_def saveAs_def array_from_def split: prod.splits outcome.splits sum.splits)
  have bk: "documentData (doc (fst (snd (backup toString delegate target cancelled (w, p)))))
              = documentData (doc w)"
    by (simp add: backup_def saveAs_def split: prod.splits outcome.splits sum.splits)
  have ok: "delegate p = (Resolved fileData, p') \<and> \<not> refuses (fs w) (uri (doc w)) \<longrightarrow>
        fst (save delegate False (w, p)) = Resolved ()
        \<and> files (fs (fst (snd (save delegate False (w, p))))) (uri (doc w)) = Some fileData"
    by (simp add: save_def saveAs_def array_from_def fs_writeFile_def)
  show ?thesis
    using edit msg sa sv bk ok by (simp add: undo_def redo_def dispose_def Let_def)
qed

theorem documentData_frame_witness:
  "sample_delegate () = (Resolved [7, 8], ())
   \<and> \<not> refuses (fs (makeEdit E1 sample_world)) (uri (doc (makeEdit E1 sample_world)))
   \<and> fst (save sample_delegate False (makeEdit E1 sample_world, ())) = Resolved ()
   \<and> files (fs (fst (snd (save sample_delegate False (makeEdit E1 sample_world, ()))))) file_uri
       = Some [7, 8]
   \<and> documentData (doc (fst (snd (save sample_delegate False (makeEdit E1 sample_world, ())))))
       = [1, 2, 3]"
proof -
  let ?w = "makeEdit E1 sample_world"
  have a: "sample_delegate () = (Resolved [7, 8], ())"
    by (simp add: sample_delegate_def)
  have b: "\<not> refuses (fs ?w) (uri (doc ?w))" "uri (doc ?w) = file_uri"
    "documentData (doc ?w) = [1, 2, 3]"
    by (simp_all add: makeEdit_def sample_world_def new_BinaryDocument_lists sample_fs_def)
  show ?thesis
    using a b
      documentData_frame [of E1 ?w "Update E1" new_BinaryEditorProvider sample_delegate file_uri
        False "()" sample_toString "[7, 8]" "()"]
    by simp
qed

end
